theory Spec2Isabelle
  imports Main "HOL-Library.Multiset"
begin

section \<open>JavaScript values and React elements\<close>

text \<open>
  The pages of the site are React function components: JavaScript functions from a props
  object to a tree of React elements. A value is \<open>undefined\<close>, a string, a reference to an
  imported binding (a component such as \<open>Card\<close> or \<open>Card.Title\<close>, whose code is outside the
  modelled files), an array, a plain object, or a React element: its type (a string for a
  host element such as \<open>ul\<close>, a reference for a component) and its props object.
  Strings are UTF-8 byte sequences.
\<close>

datatype val =
    VUndefined
  | VStr string
  | VRef string
  | VArr "val list"
  | VObj "(string \<times> val) list"
  | VElem val "(string \<times> val) list"

text \<open>An object is the list of its properties in insertion order.\<close>

type_synonym props = "(string \<times> val) list"

text \<open>Reading a property, \<open>obj.k\<close> or destructuring: an absent property reads \<open>undefined\<close>.\<close>

definition get_prop :: "props \<Rightarrow> string \<Rightarrow> val" where
  "get_prop ps k = (case map_of ps k of None \<Rightarrow> VUndefined | Some v \<Rightarrow> v)"

text \<open>Writing a property, \<open>obj[k] = v\<close>: an existing key keeps its place, a new one goes last.\<close>

fun set_prop :: "string \<Rightarrow> val \<Rightarrow> props \<Rightarrow> props" where
  "set_prop k v [] = [(k, v)]"
| "set_prop k v ((k', v') # ps) =
     (if k' = k then (k, v) # ps else (k', v') # set_prop k v ps)"

text \<open>The object spread \<open>{...base, ...ps}\<close>: the properties of \<open>ps\<close> are written over \<open>base\<close>.\<close>

definition spread :: "props \<Rightarrow> props \<Rightarrow> props" where
  "spread base ps = fold (\<lambda>(k, v). set_prop k v) ps base"

text \<open>The rest pattern \<open>{ k1, ..., ...rest }\<close>: the properties not named.\<close>

definition rest_props :: "string list \<Rightarrow> props \<Rightarrow> props" where
  "rest_props ks ps = filter (\<lambda>(k, v). k \<notin> set ks) ps"

text \<open>
  JSX: \<open><T a=... >kids</T>\<close> is \<open>React.createElement(T, {a: ...}, ...kids)\<close>. With no child
  the props have no \<open>children\<close>; one child is stored as it is; several are stored as an array.
\<close>

definition jsx_props :: "props \<Rightarrow> val list \<Rightarrow> props" where
  "jsx_props attrs kids =
     (case kids of
        [] \<Rightarrow> attrs
      | [k] \<Rightarrow> set_prop ''children'' k attrs
      | _ \<Rightarrow> set_prop ''children'' (VArr kids) attrs)"

definition jsx :: "val \<Rightarrow> props \<Rightarrow> val list \<Rightarrow> val" where
  "jsx ty attrs kids = VElem ty (jsx_props attrs kids)"

text \<open>
  An element of a component of the same file is rendered by calling the component on the
  props of the element.
\<close>

definition render :: "(props \<Rightarrow> val) \<Rightarrow> props \<Rightarrow> val list \<Rightarrow> val" where
  "render component attrs kids = component (jsx_props attrs kids)"

subsection \<open>Observations on a render tree\<close>

fun elem_type :: "val \<Rightarrow> val" where
  "elem_type (VElem ty ps) = ty"
| "elem_type _ = VUndefined"

fun elem_props :: "val \<Rightarrow> props" where
  "elem_props (VElem ty ps) = ps"
| "elem_props _ = []"

definition attr :: "val \<Rightarrow> string \<Rightarrow> val" where
  "attr e k = get_prop (elem_props e) k"

text \<open>The children a value stands for: an array lists them, \<open>undefined\<close> is none.\<close>

fun child_list :: "val \<Rightarrow> val list" where
  "child_list (VArr vs) = vs"
| "child_list VUndefined = []"
| "child_list v = [v]"

definition children_of :: "val \<Rightarrow> val list" where
  "children_of e = child_list (attr e ''children'')"

text \<open>
  The elements of a given type in a tree, parents before children, in document order.
\<close>

fun elems_of_type :: "val \<Rightarrow> val \<Rightarrow> val list" where
  "elems_of_type ty (VElem t ps) =
     (if t = ty then [VElem t ps] else []) @ concat (map (\<lambda>p. elems_of_type ty (snd p)) ps)"
| "elems_of_type ty (VArr vs) = concat (map (elems_of_type ty) vs)"
| "elems_of_type ty (VObj ps) = concat (map (\<lambda>p. elems_of_type ty (snd p)) ps)"
| "elems_of_type ty _ = []"

section \<open>The Uses page (src/pages/uses.jsx)\<close>

text \<open>
  \<^verbatim>\<open>
  function ToolsSection({ children, ...props }) {
    return (
      <Section {...props}>
        <ul role="list" className="space-y-16">
          {children}
        </ul>
      </Section>
    )
  }
  \<close>
\<close>

definition ToolsSection :: "props \<Rightarrow> val" where
  "ToolsSection ps =
     (let children = get_prop ps ''children'';
          props = rest_props [''children''] ps
      in jsx (VRef ''Section'') (spread [] props)
           [jsx (VStr ''ul'') [(''role'', VStr ''list''), (''className'', VStr ''space-y-16'')]
              [children]])"

text \<open>
  \<^verbatim>\<open>
  function Tool({ title, href, children }) {
    return (
      <Card as="li">
        <Card.Title as="h3" href={href} target="_blank" rel="noopener noreferrer">
          {title}
        </Card.Title>
        <Card.Description>{children}</Card.Description>
      </Card>
    );
  }
  \<close>
\<close>

definition Tool :: "props \<Rightarrow> val" where
  "Tool ps =
     (let title = get_prop ps ''title'';
          href = get_prop ps ''href'';
          children = get_prop ps ''children''
      in jsx (VRef ''Card'') [(''as'', VStr ''li'')]
           [jsx (VRef ''Card.Title'')
              [(''as'', VStr ''h3''), (''href'', href), (''target'', VStr ''_blank''),
               (''rel'', VStr ''noopener noreferrer'')]
              [title],
            jsx (VRef ''Card.Description'') [] [children]])"

text \<open>
  The text of the page. JSX text is trimmed line by line and its lines are joined by one
  space. The source writes two characters outside ASCII, U+201D and U+2019, given here by
  their UTF-8 bytes.
\<close>

definition rdquo :: string where
  "rdquo = [CHR 0xE2, CHR 0x80, CHR 0x9D]"

definition rsquo :: string where
  "rsquo = [CHR 0xE2, CHR 0x80, CHR 0x99]"

definition intro_text :: string where
  "intro_text = ''I get asked a lot about the things I use to build software, stay productive, or buy to fool myself into thinking I'' @ rsquo @ ''m being productive when I'' @ rsquo @ ''m really just procrastinating. Here'' @ rsquo @ ''s a big list of all of my favorite stuff.''"

definition macbook_title :: string where
  "macbook_title = ''16'' @ rdquo @ '' MacBook Pro, M2, 32GB RAM (2022)''"

definition macbook_text :: string where
  "macbook_text = ''I was using an Intel-based 16'' @ rdquo @ '' MacBook Pro prior to this and the difference is night and day. I'' @ rsquo @ ''ve never heard the fans turn on a single time, even under the incredibly heavy loads I put it through with our various launch simulations.''"

definition airpods_text :: string where
  "airpods_text = ''Music plays a vital role in my daily routine, whether I`m working on complex coding challenges or diving into an engaging study session. With my AirPods Max, I`m enveloped in my favorite melodies and tunes. They create a personal soundscape that fosters my focus and enhances my productivity, turning work and study hours into an enjoyable journey.''"

definition pycharm_text :: string where
  "pycharm_text = ''As a software developer, I need a robust and reliable IDE, and PyCharm Professional hits the mark. Its intelligent code assistance and extensive range of handy features streamline my coding workflow, making it easier to write, debug, and refactor Python code. The overall result? A significant boost in productivity and a smoother coding experience.''"

definition datagrip_text :: string where
  "datagrip_text = ''Managing databases is an integral part of my work, and DataGrip is my go-to tool for that. It supports various databases and provides smart code completion, on-the-fly error detection, and even version control system integration. It`s more than just a database tool - it`s a comprehensive solution that makes handling databases intuitive and hassle-free.''"

definition iterm_text :: string where
  "iterm_text = ''iTerm2 enhances my command-line experience with its array of powerful features. The split-pane views, search functionality, and extensive customization options it provides all contribute to a superior terminal experience. Whether it`s scripting or running development servers, iTerm2 proves itself as an invaluable asset in my toolkit.''"

definition figma_text :: string where
  "figma_text = ''When it comes to design tools, Figma has become my go-to. Beyond just a design tool, it`s our virtual whiteboard for brainstorming, prototyping, and collaboration. The seamless real-time collaboration feature is a game-changer, enabling us to work together on designs no matter where we are.''"

definition midjourney_text :: string where
  "midjourney_text = ''When I need original, creative images and graphics for my apps, MidJourney AI is my go-to tool. It`s like having a personal graphic designer at my disposal. Its AI capabilities help me to generate stunning visuals that are unique and resonate with my user base.''"

definition trello_text :: string where
  "trello_text = ''Trello is my go-to task management and project collaboration tool. Its intuitive board, list, and card interface allows me to organize and prioritize my tasks and projects effectively. With features like due dates, checklists, labels, and integrations, Trello helps me stay on top of my work and collaborate with team members seamlessly.''"

definition chatgpt_text :: string where
  "chatgpt_text = ''I find ChatGPT incredibly useful for brainstorming, code review, and as a writing assistant. It`s like having an AI-powered co-worker who`s always ready to provide insights and assist with the development process. It really has become an essential part of my productivity toolkit.''"

text \<open>
  The props of the third entry as the page writes them: besides \<open>title\<close> and \<open>href\<close> it
  passes \<open>target\<close> and \<open>rel\<close>.
\<close>

definition pycharm_props :: props where
  "pycharm_props =
     [(''title'', VStr ''PyCharm Professional''),
      (''href'', VStr ''https://www.jetbrains.com/pycharm/''),
      (''target'', VStr ''_blank''),
      (''rel'', VStr ''noopener noreferrer'')]"

text \<open>
  The component \<open>Uses\<close> takes no props. The block \<open>{/* <ToolsSection title="Books"> ... */}\<close>
  that follows the fourth section is a JSX comment: an empty expression, which is no child.
\<close>

definition Uses :: val where
  "Uses =
     jsx (VRef ''Fragment'') []
       [jsx (VRef ''Head'') []
          [jsx (VStr ''title'') [] [VStr ''Uses - My favourite tools''],
           jsx (VStr ''meta'')
             [(''name'', VStr ''description''),
              (''content'', VStr ''Software I use, gadgets I love, and other things I recommend.'')]
             []],
        jsx (VRef ''SimpleLayout'')
          [(''title'', VStr ''Software I use, gadgets I love, and other things I recommend.''),
           (''intro'', VStr intro_text)]
          [jsx (VStr ''div'') [(''className'', VStr ''space-y-20'')]
             [render ToolsSection [(''title'', VStr ''Workstation'')]
                [render Tool
                   [(''title'', VStr macbook_title),
                    (''href'', VStr ''https://www.apple.com/au/shop/buy-mac/macbook-pro/16-inch'')]
                   [VStr macbook_text],
                 render Tool
                   [(''title'', VStr ''AirPods Max''),
                    (''href'', VStr ''https://www.apple.com/au/airpods-max/'')]
                   [VStr airpods_text]],
              render ToolsSection [(''title'', VStr ''Development tools'')]
                [render Tool pycharm_props [VStr pycharm_text],
                 render Tool
                   [(''title'', VStr ''DataGrip''),
                    (''href'', VStr ''https://www.jetbrains.com/datagrip/'')]
                   [VStr datagrip_text],
                 render Tool
                   [(''title'', VStr ''iTerm2''), (''href'', VStr ''https://iterm2.com/'')]
                   [VStr iterm_text]],
              render ToolsSection [(''title'', VStr ''Design'')]
                [render Tool
                   [(''title'', VStr ''Figma''), (''href'', VStr ''https://www.figma.com/'')]
                   [VStr figma_text],
                 render Tool
                   [(''title'', VStr ''MidJourney AI''),
                    (''href'', VStr ''https://www.midjourney.com/home/?callbackUrl=%2Fapp%2F'')]
                   [VStr midjourney_text]],
              render ToolsSection [(''title'', VStr ''Productivity'')]
                [render Tool
                   [(''title'', VStr ''Trello''), (''href'', VStr ''https://trello.com'')]
                   [VStr trello_text],
                 render Tool
                   [(''title'', VStr ''ChatGPT''), (''href'', VStr ''https://chat.openai.com/'')]
                   [VStr chatgpt_text]]]]]"

text \<open>What is read off a rendered card and a rendered section.\<close>

definition card_title :: "val \<Rightarrow> val" where
  "card_title c = (case children_of c of t # _ \<Rightarrow> t | [] \<Rightarrow> VUndefined)"

definition card_description :: "val \<Rightarrow> val" where
  "card_description c = (case children_of c of _ # d # _ \<Rightarrow> d | _ \<Rightarrow> VUndefined)"

definition section_cards :: "val \<Rightarrow> val list" where
  "section_cards sec = concat (map children_of (children_of sec))"

text \<open>
  What a page shows: its sections and its cards in document order, and for each section its
  title with the titles of its cards.
\<close>

definition page_sections :: "val \<Rightarrow> val list" where
  "page_sections pg = elems_of_type (VRef ''Section'') pg"

definition page_cards :: "val \<Rightarrow> val list" where
  "page_cards pg = elems_of_type (VRef ''Card'') pg"

definition card_title_text :: "val \<Rightarrow> val" where
  "card_title_text c = attr (card_title c) ''children''"

definition page_groups :: "val \<Rightarrow> (val \<times> val list) list" where
  "page_groups pg =
     map (\<lambda>s. (attr s ''title'', map card_title_text (section_cards s))) (page_sections pg)"

fun nonempty_string :: "val \<Rightarrow> bool" where
  "nonempty_string (VStr s) = (s \<noteq> [])"
| "nonempty_string _ = False"

section \<open>The About page: social links\<close>

text \<open>
  \<^verbatim>\<open>
  function SocialLink({ className, href, children, icon: Icon }) {
    return (
      <li className={clsx(className, 'flex')}>
        <Link
          href={href}
          target="_blank" // Add this attribute to open link in a new tab
          rel="noopener noreferrer" // Add these attributes for security and accessibility
          className="group flex text-sm font-medium text-zinc-800 transition hover:text-teal-500 dark:text-zinc-200 dark:hover:text-teal-500"
        >
          <Icon className="h-6 w-6 flex-none fill-zinc-500 transition group-hover:fill-teal-500" />
          <span className="ml-4">{children}</span>
        </Link>
      </li>
    )
  }
  \<close>
  \<open>clsx\<close> is a function of an external package; it is a parameter of the model.
\<close>

definition SocialLink :: "(val list \<Rightarrow> val) \<Rightarrow> props \<Rightarrow> val" where
  "SocialLink clsx ps =
     (let className = get_prop ps ''className'';
          href = get_prop ps ''href'';
          children = get_prop ps ''children'';
          Icon = get_prop ps ''icon''
      in jsx (VStr ''li'') [(''className'', clsx [className, VStr ''flex''])]
           [jsx (VRef ''Link'')
              [(''href'', href),
               (''target'', VStr ''_blank''),
               (''rel'', VStr ''noopener noreferrer''),
               (''className'', VStr ''group flex text-sm font-medium text-zinc-800 transition hover:text-teal-500 dark:text-zinc-200 dark:hover:text-teal-500'')]
              [jsx Icon
                 [(''className'', VStr ''h-6 w-6 flex-none fill-zinc-500 transition group-hover:fill-teal-500'')]
                 [],
               jsx (VStr ''span'') [(''className'', VStr ''ml-4'')] [children]]])"

definition social_anchor :: "val \<Rightarrow> val" where
  "social_anchor li = (case children_of li of a # _ \<Rightarrow> a | [] \<Rightarrow> VUndefined)"

text \<open>The first social link of the page, \<open>Follow on Twitter\<close>.\<close>

definition twitter_props :: props where
  "twitter_props =
     [(''href'', VStr ''https://twitter.com/IbrahimSaidi94''),
      (''icon'', VRef ''TwitterIcon''),
      (''children'', VStr ''Follow on Twitter'')]"

section \<open>The article pages (src/pages/articles/*.mdx)\<close>

text \<open>
  Each article exports its metadata and a page component:
  \<^verbatim>\<open>
  export const meta = { author: ..., date: ..., title: ..., description: ... }
  export default (props) => <ArticleLayout meta={meta} {...props} />
  \<close>
  The spread comes after \<open>meta\<close>, so a \<open>meta\<close> among the props would replace it. MDX calls
  the page component with the compiled body of the article as \<open>children\<close>.
\<close>

definition meta_fastapi :: val where
  "meta_fastapi = VObj
     [(''author'', VStr ''Ibrahim Saidi''),
      (''date'', VStr ''2022-11-04''),
      (''title'', VStr ''How to Serve AI Models with FastAPI and Docker''),
      (''description'', VStr ''Learn to create a containerised FastAPI app serving a HuggingFace model'')]"

definition meta_streamlit :: val where
  "meta_streamlit = VObj
     [(''author'', VStr ''Ibrahim''),
      (''date'', VStr ''2022-08-20''),
      (''title'', VStr ''Create a Simple Stock Screening App Using Streamlit''),
      (''description'', VStr ''Learn to Build a Stock Screening App Using Streamlit and an API'')]"

definition meta_first_ml :: val where
  "meta_first_ml = VObj
     [(''author'', VStr ''Ibrahim''),
      (''date'', VStr ''2022-01-29''),
      (''title'', VStr ''Your First Machine Learning Project in Python''),
      (''description'', VStr ''Most companies try to stay ahead of the curve when it comes to visual design, but for Planetaria we needed to create a brand that would still inspire us 100 years from now when humanity has spread across our entire solar system.'')]"

definition article_page :: "val \<Rightarrow> props \<Rightarrow> val" where
  "article_page meta ps = jsx (VRef ''ArticleLayout'') (spread [(''meta'', meta)] ps) []"

text \<open>
  Modelled from the spec: the component \<open>ArticleLayout\<close> (\<open>@/components/ArticleLayout\<close>),
  which the article pages import and which is not among the source files. Spec section 4.3:
  given an article, the page combines the metadata header (author, date, title) and the body
  content verbatim; the renderer is a template substitution. A page is the sequence of its
  parts: the three parts of the header, then the content region.
\<close>

datatype part = AuthorPart val | DatePart val | TitlePart val | ContentRegion val

fun obj_field :: "val \<Rightarrow> string \<Rightarrow> val" where
  "obj_field (VObj ps) k = get_prop ps k"
| "obj_field _ k = VUndefined"

definition ArticleLayout :: "props \<Rightarrow> part list" where
  "ArticleLayout ps =
     (let meta = get_prop ps ''meta'';
          children = get_prop ps ''children''
      in [AuthorPart (obj_field meta ''author''),
          DatePart (obj_field meta ''date''),
          TitlePart (obj_field meta ''title''),
          ContentRegion children])"

fun is_header_part :: "part \<Rightarrow> bool" where
  "is_header_part (ContentRegion v) = False"
| "is_header_part _ = True"

definition titles_of :: "part list \<Rightarrow> val list" where
  "titles_of pg = concat (map (\<lambda>p. case p of TitlePart v \<Rightarrow> [v] | _ \<Rightarrow> []) pg)"

definition dates_of :: "part list \<Rightarrow> val list" where
  "dates_of pg = concat (map (\<lambda>p. case p of DatePart v \<Rightarrow> [v] | _ \<Rightarrow> []) pg)"

definition contents_of :: "part list \<Rightarrow> val list" where
  "contents_of pg = concat (map (\<lambda>p. case p of ContentRegion v \<Rightarrow> [v] | _ \<Rightarrow> []) pg)"

text \<open>
  The article of the spec's data model (section 3), its \<open>meta\<close> object with the keys in the
  order of the source, and the page rendered for it: the page component of the article,
  called with the body as \<open>children\<close>, and the layout applied to the props it passes.
\<close>

record Article =
  article_author :: string
  article_date :: string
  article_title :: string
  article_description :: string
  article_body :: val

definition article_meta :: "Article \<Rightarrow> val" where
  "article_meta a = VObj
     [(''author'', VStr (article_author a)),
      (''date'', VStr (article_date a)),
      (''title'', VStr (article_title a)),
      (''description'', VStr (article_description a))]"

definition render_article :: "Article \<Rightarrow> part list" where
  "render_article a =
     ArticleLayout (elem_props (article_page (article_meta a) [(''children'', article_body a)]))"

text \<open>A body with no content: \<open>undefined\<close>, the empty string or the empty array.\<close>

definition empty_content :: "val \<Rightarrow> bool" where
  "empty_content v = (v = VUndefined \<or> v = VStr [] \<or> v = VArr [])"

text \<open>The article on FastAPI with its body left empty.\<close>

definition fastapi_no_body :: Article where
  "fastapi_no_body =
     \<lparr>article_author = ''Ibrahim Saidi'',
      article_date = ''2022-11-04'',
      article_title = ''How to Serve AI Models with FastAPI and Docker'',
      article_description = ''Learn to create a containerised FastAPI app serving a HuggingFace model'',
      article_body = VStr []\<rparr>"

section \<open>Content items and grouping\<close>

text \<open>The records of the spec's data model (section 3).\<close>

record ContentItem =
  title :: string
  href :: "string option"
  category :: string
  body :: string

record ContentGroup =
  name :: string
  items :: "ContentItem list"

text \<open>
  Modelled from the spec: the grouping operation of spec section 4.1. The source has no
  function that groups: uses.jsx writes the four sections and their entries out literally.
  The spec: given an ordered sequence of items, partition it into groups, one per distinct
  category, preserving first-seen order of categories and within-category item order.
\<close>

fun first_seen :: "'a list \<Rightarrow> 'a list" where
  "first_seen [] = []"
| "first_seen (c # cs) = c # removeAll c (first_seen cs)"

definition group_items :: "ContentItem list \<Rightarrow> ContentGroup list" where
  "group_items xs =
     map (\<lambda>c. \<lparr>name = c, items = filter (\<lambda>i. category i = c) xs\<rparr>)
       (first_seen (map category xs))"

text \<open>
  The items of the scenario of spec section 8: \<open>A\<close> and \<open>C\<close> of category \<open>X\<close>, \<open>B\<close> of category
  \<open>Y\<close>, declared in the order \<open>A\<close>, \<open>B\<close>, \<open>C\<close>.
\<close>

definition item_A :: ContentItem where
  "item_A = \<lparr>title = ''A'', href = None, category = ''X'', body = []\<rparr>"

definition item_B :: ContentItem where
  "item_B = \<lparr>title = ''B'', href = None, category = ''Y'', body = []\<rparr>"

definition item_C :: ContentItem where
  "item_C = \<lparr>title = ''C'', href = None, category = ''X'', body = []\<rparr>"

text \<open>
  The entries of the Uses page as content items, in the order uses.jsx declares them; the
  category of an entry is the title of the section that encloses it.
\<close>

definition uses_registry :: "ContentItem list" where
  "uses_registry =
     [\<lparr>title = macbook_title,
       href = Some ''https://www.apple.com/au/shop/buy-mac/macbook-pro/16-inch'',
       category = ''Workstation'', body = macbook_text\<rparr>,
      \<lparr>title = ''AirPods Max'', href = Some ''https://www.apple.com/au/airpods-max/'',
       category = ''Workstation'', body = airpods_text\<rparr>,
      \<lparr>title = ''PyCharm Professional'', href = Some ''https://www.jetbrains.com/pycharm/'',
       category = ''Development tools'', body = pycharm_text\<rparr>,
      \<lparr>title = ''DataGrip'', href = Some ''https://www.jetbrains.com/datagrip/'',
       category = ''Development tools'', body = datagrip_text\<rparr>,
      \<lparr>title = ''iTerm2'', href = Some ''https://iterm2.com/'',
       category = ''Development tools'', body = iterm_text\<rparr>,
      \<lparr>title = ''Figma'', href = Some ''https://www.figma.com/'',
       category = ''Design'', body = figma_text\<rparr>,
      \<lparr>title = ''MidJourney AI'',
       href = Some ''https://www.midjourney.com/home/?callbackUrl=%2Fapp%2F'',
       category = ''Design'', body = midjourney_text\<rparr>,
      \<lparr>title = ''Trello'', href = Some ''https://trello.com'',
       category = ''Productivity'', body = trello_text\<rparr>,
      \<lparr>title = ''ChatGPT'', href = Some ''https://chat.openai.com/'',
       category = ''Productivity'', body = chatgpt_text\<rparr>]"

text \<open>
  Modelled from the spec: the control flow of spec section 2, of which the source has only
  the result written out: for each group a titled section containing one card per record.
  The section and the card are the components \<open>ToolsSection\<close> and \<open>Tool\<close> of uses.jsx.
\<close>

definition render_item :: "ContentItem \<Rightarrow> val" where
  "render_item i =
     render Tool
       ((''title'', VStr (title i)) #
        (case href i of None \<Rightarrow> [] | Some h \<Rightarrow> [(''href'', VStr h)]))
       [VStr (body i)]"

definition render_group :: "ContentGroup \<Rightarrow> val" where
  "render_group g =
     render ToolsSection [(''title'', VStr (name g))] (map render_item (items g))"

section \<open>Properties of grouping\<close>

lemma set_first_seen: "set (first_seen cs) = set cs"
  by (induction cs) auto

lemma distinct_first_seen: "distinct (first_seen cs)"
  by (induction cs) (auto simp: distinct_removeAll)

lemma first_seen_snoc:
  "first_seen (cs @ [c]) = (if c \<in> set cs then first_seen cs else first_seen cs @ [c])"
  by (induction cs) (auto simp: set_first_seen)

lemma mset_concat_filter:
  "distinct cs \<Longrightarrow>
   mset (concat (map (\<lambda>c. filter (\<lambda>i. f i = c) xs) cs)) = mset (filter (\<lambda>i. f i \<in> set cs) xs)"
proof (induction cs)
  case Nil
  then show ?case by simp
next
  case (Cons c cs)
  have "mset (filter (\<lambda>i. f i = c) xs) + mset (filter (\<lambda>i. f i \<in> set cs) xs)
      = mset (filter (\<lambda>i. f i = c \<or> f i \<in> set cs) xs)"
    using Cons.prems by (induction xs) auto
  with Cons show ?case by simp
qed

lemma concat_filter_removeAll:
  "concat (map (\<lambda>d. filter (\<lambda>i. f i = d) (x # xs)) (removeAll (f x) cs))
   = concat (map (\<lambda>d. filter (\<lambda>i. f i = d) xs) (removeAll (f x) cs))"
  by (induction cs) auto

lemma concat_filter_fresh:
  "c \<notin> set (map f xs) \<Longrightarrow> filter (\<lambda>i. f i = c) xs = []"
  by (induction xs) auto

lemma concat_groups_contiguous:
  "distinct (remdups_adj (map f xs)) \<Longrightarrow>
   concat (map (\<lambda>c. filter (\<lambda>i. f i = c) xs) (first_seen (map f xs))) = xs"
proof (induction xs)
  case Nil
  then show ?case by simp
next
  case (Cons x xs)
  let ?G = "\<lambda>cs zs. concat (map (\<lambda>c. filter (\<lambda>i. f i = c) zs) cs)"
  have step: "?G (first_seen (map f (x # xs))) (x # xs)
      = x # filter (\<lambda>i. f i = f x) xs @ ?G (removeAll (f x) (first_seen (map f xs))) xs"
  proof -
    have "filter (\<lambda>i. f i = f x) (x # xs) = x # filter (\<lambda>i. f i = f x) xs"
      by simp
    then show ?thesis
      by (simp only: list.map first_seen.simps concat.simps concat_filter_removeAll append_Cons)
  qed
  show ?case
  proof (cases xs)
    case Nil
    then show ?thesis by simp
  next
    case (Cons y ys)
    show ?thesis
    proof (cases "f y = f x")
      case True
      with Cons Cons.prems have "distinct (remdups_adj (map f xs))"
        by simp
      then have ih: "?G (first_seen (map f xs)) xs = xs"
        by (rule Cons.IH)
      define R where "R = removeAll (f x) (first_seen (map f ys))"
      from True Cons have fs: "first_seen (map f xs) = f x # R"
        by (simp add: R_def)
      then have rm: "removeAll (f x) (first_seen (map f xs)) = R"
        by (simp add: R_def)
      from ih have "filter (\<lambda>i. f i = f x) xs @ ?G R xs = xs"
        by (simp only: fs list.map concat.simps)
      with step show ?thesis by (simp only: rm)
    next
      case False
      with Cons Cons.prems have d: "distinct (remdups_adj (map f xs))"
        and fresh: "f x \<notin> set (map f xs)"
        by (simp_all del: set_map)
      from d have ih: "?G (first_seen (map f xs)) xs = xs"
        by (rule Cons.IH)
      from fresh have "filter (\<lambda>i. f i = f x) xs = []"
        by (rule concat_filter_fresh)
      moreover from fresh have "removeAll (f x) (first_seen (map f xs)) = first_seen (map f xs)"
        by (simp add: set_first_seen del: set_map)
      ultimately show ?thesis using ih step by simp
    qed
  qed
qed

lemma group_items_names: "map name (group_items xs) = first_seen (map category xs)"
  by (simp add: group_items_def comp_def)

lemma group_items_concat:
  "concat (map items (group_items xs))
   = concat (map (\<lambda>c. filter (\<lambda>i. category i = c) xs) (first_seen (map category xs)))"
  by (simp add: group_items_def comp_def)

lemma group_items_member:
  assumes "g \<in> set (group_items xs)"
  shows "items g = filter (\<lambda>i. category i = name g) xs" and "name g \<in> set (map category xs)"
  using assms by (auto simp: group_items_def set_first_seen)

text \<open>The scenario of spec section 8: the groups are \<open>X\<close> with \<open>A\<close>, \<open>C\<close> and \<open>Y\<close> with \<open>B\<close>.\<close>

lemma group_items_scenario:
  "group_items [item_A, item_B, item_C]
   = [\<lparr>name = ''X'', items = [item_A, item_C]\<rparr>, \<lparr>name = ''Y'', items = [item_B]\<rparr>]"
  by (simp add: group_items_def item_A_def item_B_def item_C_def)

text \<open>
  Claim C1 says that concatenating the items of all groups, in the order of the groups,
  gives back exactly the input sequence. On the scenario of the spec itself the
  concatenation is \<open>A\<close>, \<open>C\<close>, \<open>B\<close>, and the input is \<open>A\<close>, \<open>B\<close>, \<open>C\<close>.
\<close>

theorem group_items_concat_counterexample:
  "concat (map items (group_items [item_A, item_B, item_C])) \<noteq> [item_A, item_B, item_C]"
  by (simp add: group_items_def item_A_def item_B_def item_C_def)

text \<open>
  Claim C1, as amended. Grouping produces one group per distinct category; the categories
  appear in first-seen order (a category is appended when an item brings it for the first
  time); the names of the groups are distinct; the items of a group are the items of its
  category in source order, and there is at least one; the concatenation of the items of
  all groups is a rearrangement of the input, and it is the input itself when the items
  of each category are adjacent in the input.
\<close>

theorem group_items_partition:
  "map name (group_items xs) = first_seen (map category xs)
   \<and> map name (group_items (xs @ [x]))
       = (if category x \<in> set (map category xs) then map name (group_items xs)
          else map name (group_items xs) @ [category x])
   \<and> distinct (map name (group_items xs))
   \<and> set (map name (group_items xs)) = set (map category xs)
   \<and> (\<forall>g \<in> set (group_items xs).
         items g = filter (\<lambda>i. category i = name g) xs \<and> items g \<noteq> [])
   \<and> mset (concat (map items (group_items xs))) = mset xs
   \<and> (distinct (remdups_adj (map category xs)) \<longrightarrow> concat (map items (group_items xs)) = xs)"
proof (intro conjI ballI impI)
  show "map name (group_items xs) = first_seen (map category xs)"
    by (rule group_items_names)
  show "map name (group_items (xs @ [x]))
       = (if category x \<in> set (map category xs) then map name (group_items xs)
          else map name (group_items xs) @ [category x])"
    by (simp only: group_items_names map_append list.map first_seen_snoc)
  show "distinct (map name (group_items xs))"
    by (simp only: group_items_names distinct_first_seen)
  show "set (map name (group_items xs)) = set (map category xs)"
    by (simp only: group_items_names set_first_seen)
  show "mset (concat (map items (group_items xs))) = mset xs"
  proof -
    have "mset (concat (map items (group_items xs)))
        = mset (filter (\<lambda>i. category i \<in> set (first_seen (map category xs))) xs)"
      by (simp only: group_items_concat mset_concat_filter [OF distinct_first_seen])
    also have "\<dots> = mset xs"
      by (simp add: set_first_seen)
    finally show ?thesis .
  qed
next
  fix g assume g: "g \<in> set (group_items xs)"
  show "items g = filter (\<lambda>i. category i = name g) xs"
    using g by (rule group_items_member)
  from g have "name g \<in> set (map category xs)"
    by (rule group_items_member)
  then obtain i where "i \<in> set xs" "category i = name g"
    by auto
  then have "filter (\<lambda>i. category i = name g) xs \<noteq> []"
    by (auto simp: filter_empty_conv)
  with g show "items g \<noteq> []"
    by (simp only: group_items_member(1) not_False_eq_True)
next
  assume "distinct (remdups_adj (map category xs))"
  then show "concat (map items (group_items xs)) = xs"
    by (simp only: group_items_concat concat_groups_contiguous)
qed

theorem group_items_partition_witness:
  "distinct (remdups_adj (map category [item_A, item_C, item_B]))
   \<and> concat (map items (group_items [item_A, item_C, item_B])) = [item_A, item_C, item_B]
   \<and> \<lparr>name = ''X'', items = [item_A, item_C]\<rparr> \<in> set (group_items [item_A, item_C, item_B])
   \<and> filter (\<lambda>i. category i = ''X'') [item_A, item_C, item_B] = [item_A, item_C]
   \<and> map name (group_items [item_A, item_C, item_B]) = [''X'', ''Y'']"
proof -
  have d: "distinct (remdups_adj (map category [item_A, item_C, item_B]))"
    by (simp add: item_A_def item_B_def item_C_def)
  have m: "\<lparr>name = ''X'', items = [item_A, item_C]\<rparr> \<in> set (group_items [item_A, item_C, item_B])"
    by (simp add: group_items_def item_A_def item_B_def item_C_def)
  have n: "first_seen (map category [item_A, item_C, item_B]) = [''X'', ''Y'']"
    by (simp add: item_A_def item_B_def item_C_def)
  note part = group_items_partition [of "[item_A, item_C, item_B]" item_B]
  from part have names: "map name (group_items [item_A, item_C, item_B])
      = first_seen (map category [item_A, item_C, item_B])"
    by (rule conjunct1)
  from part have "\<forall>g \<in> set (group_items [item_A, item_C, item_B]).
      items g = filter (\<lambda>i. category i = name g) [item_A, item_C, item_B] \<and> items g \<noteq> []"
    by blast
  with m have f: "filter (\<lambda>i. category i = ''X'') [item_A, item_C, item_B] = [item_A, item_C]"
    by fastforce
  from part d have c: "concat (map items (group_items [item_A, item_C, item_B]))
      = [item_A, item_C, item_B]"
    by blast
  from d c m f names n show ?thesis
    by (simp only: simp_thms)
qed

text \<open>
  Claim C8. Grouping the empty sequence of items gives the empty sequence of groups;
  \<open>group_items\<close> is a total function of its argument, so there is no error and no effect.
\<close>

theorem group_items_empty: "group_items [] = []"
  by (simp add: group_items_def)

section \<open>Properties of the card and link components\<close>

lemma map_of_set_prop: "map_of (set_prop k v ps) = (map_of ps)(k \<mapsto> v)"
  by (induction ps) auto

lemma get_prop_set_prop:
  "get_prop (set_prop k v ps) k' = (if k' = k then v else get_prop ps k')"
  by (simp add: get_prop_def map_of_set_prop)

lemma Tool_card:
  "Tool ps = VElem (VRef ''Card'')
     [(''as'', VStr ''li''),
      (''children'', VArr
         [VElem (VRef ''Card.Title'')
            [(''as'', VStr ''h3''), (''href'', get_prop ps ''href''),
             (''target'', VStr ''_blank''), (''rel'', VStr ''noopener noreferrer''),
             (''children'', get_prop ps ''title'')],
          VElem (VRef ''Card.Description'') [(''children'', get_prop ps ''children'')]])]"
  by (simp add: Tool_def jsx_def jsx_props_def Let_def)

lemma card_title_Tool:
  "card_title (Tool ps) = VElem (VRef ''Card.Title'')
     [(''as'', VStr ''h3''), (''href'', get_prop ps ''href''),
      (''target'', VStr ''_blank''), (''rel'', VStr ''noopener noreferrer''),
      (''children'', get_prop ps ''title'')]"
  by (simp add: Tool_card card_title_def children_of_def attr_def get_prop_def)

lemma card_description_Tool:
  "card_description (Tool ps)
   = VElem (VRef ''Card.Description'') [(''children'', get_prop ps ''children'')]"
  by (simp add: Tool_card card_description_def children_of_def attr_def get_prop_def)

lemma social_anchor_SocialLink:
  "social_anchor (SocialLink clsx ps) = VElem (VRef ''Link'')
     [(''href'', get_prop ps ''href''),
      (''target'', VStr ''_blank''),
      (''rel'', VStr ''noopener noreferrer''),
      (''className'', VStr ''group flex text-sm font-medium text-zinc-800 transition hover:text-teal-500 dark:text-zinc-200 dark:hover:text-teal-500''),
      (''children'', VArr
         [VElem (get_prop ps ''icon'')
            [(''className'', VStr ''h-6 w-6 flex-none fill-zinc-500 transition group-hover:fill-teal-500'')],
          VElem (VStr ''span'') [(''className'', VStr ''ml-4''), (''children'', get_prop ps ''children'')]])]"
  by (simp add: SocialLink_def social_anchor_def children_of_def attr_def jsx_def jsx_props_def
      Let_def get_prop_def)

text \<open>
  Claim C2. When \<open>href\<close> is defined, the link element of the card that \<open>Tool\<close> returns (its
  \<open>Card.Title\<close>) and the link element that \<open>SocialLink\<close> returns (its \<open>Link\<close>) carry that
  \<open>href\<close> unchanged, with \<open>target="_blank"\<close> and \<open>rel="noopener noreferrer"\<close>.
\<close>

theorem link_href_verbatim_isolated:
  assumes "get_prop ps ''href'' \<noteq> VUndefined" and "get_prop qs ''href'' \<noteq> VUndefined"
  shows "elem_type (card_title (Tool ps)) = VRef ''Card.Title''
       \<and> attr (card_title (Tool ps)) ''href'' = get_prop ps ''href''
       \<and> attr (card_title (Tool ps)) ''target'' = VStr ''_blank''
       \<and> attr (card_title (Tool ps)) ''rel'' = VStr ''noopener noreferrer''
       \<and> elem_type (social_anchor (SocialLink clsx qs)) = VRef ''Link''
       \<and> attr (social_anchor (SocialLink clsx qs)) ''href'' = get_prop qs ''href''
       \<and> attr (social_anchor (SocialLink clsx qs)) ''target'' = VStr ''_blank''
       \<and> attr (social_anchor (SocialLink clsx qs)) ''rel'' = VStr ''noopener noreferrer''"
  by (simp add: card_title_Tool social_anchor_SocialLink attr_def get_prop_def)

theorem link_href_verbatim_isolated_witness:
  "get_prop pycharm_props ''href'' \<noteq> VUndefined
   \<and> get_prop twitter_props ''href'' \<noteq> VUndefined
   \<and> attr (card_title (Tool pycharm_props)) ''href'' = VStr ''https://www.jetbrains.com/pycharm/''
   \<and> attr (card_title (Tool pycharm_props)) ''target'' = VStr ''_blank''
   \<and> attr (card_title (Tool pycharm_props)) ''rel'' = VStr ''noopener noreferrer''
   \<and> attr (social_anchor (SocialLink (\<lambda>vs. VStr ''flex'') twitter_props)) ''href''
       = VStr ''https://twitter.com/IbrahimSaidi94''
   \<and> attr (social_anchor (SocialLink (\<lambda>vs. VStr ''flex'') twitter_props)) ''target'' = VStr ''_blank''
   \<and> attr (social_anchor (SocialLink (\<lambda>vs. VStr ''flex'') twitter_props)) ''rel''
       = VStr ''noopener noreferrer''"
proof -
  have p: "get_prop pycharm_props ''href'' = VStr ''https://www.jetbrains.com/pycharm/''"
    by (simp add: get_prop_def pycharm_props_def)
  have q: "get_prop twitter_props ''href'' = VStr ''https://twitter.com/IbrahimSaidi94''"
    by (simp add: get_prop_def twitter_props_def)
  from p have p': "get_prop pycharm_props ''href'' \<noteq> VUndefined" by simp
  from q have q': "get_prop twitter_props ''href'' \<noteq> VUndefined" by simp
  from link_href_verbatim_isolated [OF p' q', of "\<lambda>vs. VStr ''flex''"] p q p' q'
  show ?thesis by simp
qed

text \<open>
  Claim C9. The card that \<open>Tool\<close> returns depends on its props only through \<open>title\<close>, \<open>href\<close>
  and \<open>children\<close>: two props objects that agree on these three render the same card,
  whatever else they hold. The entry for PyCharm Professional passes \<open>target\<close> and \<open>rel\<close>
  besides; it renders as it would without them.
\<close>

theorem Tool_ignores_other_props:
  assumes "get_prop ps ''title'' = get_prop qs ''title''"
    and "get_prop ps ''href'' = get_prop qs ''href''"
    and "get_prop ps ''children'' = get_prop qs ''children''"
  shows "Tool ps = Tool qs"
  using assms by (simp add: Tool_def)

theorem Tool_ignores_other_props_witness:
  "get_prop (jsx_props pycharm_props [VStr pycharm_text]) ''title''
     = get_prop [(''title'', VStr ''PyCharm Professional''),
                 (''href'', VStr ''https://www.jetbrains.com/pycharm/''),
                 (''children'', VStr pycharm_text)] ''title''
   \<and> get_prop (jsx_props pycharm_props [VStr pycharm_text]) ''href''
     = get_prop [(''title'', VStr ''PyCharm Professional''),
                 (''href'', VStr ''https://www.jetbrains.com/pycharm/''),
                 (''children'', VStr pycharm_text)] ''href''
   \<and> get_prop (jsx_props pycharm_props [VStr pycharm_text]) ''children''
     = get_prop [(''title'', VStr ''PyCharm Professional''),
                 (''href'', VStr ''https://www.jetbrains.com/pycharm/''),
                 (''children'', VStr pycharm_text)] ''children''
   \<and> jsx_props pycharm_props [VStr pycharm_text]
     \<noteq> [(''title'', VStr ''PyCharm Professional''),
         (''href'', VStr ''https://www.jetbrains.com/pycharm/''),
         (''children'', VStr pycharm_text)]
   \<and> render Tool pycharm_props [VStr pycharm_text]
     = Tool [(''title'', VStr ''PyCharm Professional''),
             (''href'', VStr ''https://www.jetbrains.com/pycharm/''),
             (''children'', VStr pycharm_text)]"
proof -
  let ?ps = "jsx_props pycharm_props [VStr pycharm_text]"
  let ?qs = "[(''title'', VStr ''PyCharm Professional''),
              (''href'', VStr ''https://www.jetbrains.com/pycharm/''),
              (''children'', VStr pycharm_text)]"
  have t: "get_prop ?ps ''title'' = get_prop ?qs ''title''"
    by (simp add: jsx_props_def pycharm_props_def get_prop_def)
  have h: "get_prop ?ps ''href'' = get_prop ?qs ''href''"
    by (simp add: jsx_props_def pycharm_props_def get_prop_def)
  have c: "get_prop ?ps ''children'' = get_prop ?qs ''children''"
    by (simp add: jsx_props_def pycharm_props_def get_prop_def)
  have n: "?ps \<noteq> ?qs"
    by (simp add: jsx_props_def pycharm_props_def)
  from Tool_ignores_other_props [OF t h c] t h c n show ?thesis
    by (simp only: render_def simp_thms)
qed

text \<open>
  Claim C4 says that rendering fails when a required field such as the title is absent.
  \<open>Tool\<close> called without a \<open>title\<close> returns a complete card, whose \<open>Card.Title\<close> has
  \<open>undefined\<close> for content.
\<close>

theorem Tool_missing_title_counterexample:
  "Tool [(''href'', VStr ''https://trello.com''), (''children'', VStr trello_text)]
   = VElem (VRef ''Card'')
       [(''as'', VStr ''li''),
        (''children'', VArr
           [VElem (VRef ''Card.Title'')
              [(''as'', VStr ''h3''), (''href'', VStr ''https://trello.com''),
               (''target'', VStr ''_blank''), (''rel'', VStr ''noopener noreferrer''),
               (''children'', VUndefined)],
            VElem (VRef ''Card.Description'') [(''children'', VStr trello_text)]])]"
  by (simp add: Tool_card get_prop_def)

text \<open>
  Claim C4, as amended. \<open>Tool\<close> validates nothing: for every props object it returns the
  same complete card, a \<open>Card\<close> element holding a \<open>Card.Title\<close> and a \<open>Card.Description\<close>.
  The \<open>Card.Title\<close> gets what \<open>href\<close> reads as its \<open>href\<close>, the fixed \<open>target\<close> and \<open>rel\<close>,
  and what \<open>title\<close> reads as its content; the \<open>Card.Description\<close> gets what \<open>children\<close> reads
  as its content. A field the props do not have reads \<open>undefined\<close> and is passed on so:
  no field is checked and there is no failure.
\<close>

theorem Tool_renders_any_props:
  "Tool ps
     = VElem (VRef ''Card'')
         [(''as'', VStr ''li''),
          (''children'', VArr
             [VElem (VRef ''Card.Title'')
                [(''as'', VStr ''h3''), (''href'', get_prop ps ''href''),
                 (''target'', VStr ''_blank''), (''rel'', VStr ''noopener noreferrer''),
                 (''children'', get_prop ps ''title'')],
              VElem (VRef ''Card.Description'') [(''children'', get_prop ps ''children'')]])]
   \<and> elem_type (Tool ps) = VRef ''Card''
   \<and> map elem_type (children_of (Tool ps)) = [VRef ''Card.Title'', VRef ''Card.Description'']
   \<and> attr (card_title (Tool ps)) ''children'' = get_prop ps ''title''
   \<and> attr (card_title (Tool ps)) ''href'' = get_prop ps ''href''
   \<and> attr (card_title (Tool ps)) ''target'' = VStr ''_blank''
   \<and> attr (card_title (Tool ps)) ''rel'' = VStr ''noopener noreferrer''
   \<and> attr (card_description (Tool ps)) ''children'' = get_prop ps ''children''
   \<and> (map_of ps ''title'' = None \<longrightarrow> attr (card_title (Tool ps)) ''children'' = VUndefined)
   \<and> (map_of ps ''href'' = None \<longrightarrow> attr (card_title (Tool ps)) ''href'' = VUndefined)
   \<and> (map_of ps ''children'' = None
        \<longrightarrow> attr (card_description (Tool ps)) ''children'' = VUndefined)"
proof (intro conjI impI)
  show "Tool ps
     = VElem (VRef ''Card'')
         [(''as'', VStr ''li''),
          (''children'', VArr
             [VElem (VRef ''Card.Title'')
                [(''as'', VStr ''h3''), (''href'', get_prop ps ''href''),
                 (''target'', VStr ''_blank''), (''rel'', VStr ''noopener noreferrer''),
                 (''children'', get_prop ps ''title'')],
              VElem (VRef ''Card.Description'') [(''children'', get_prop ps ''children'')]])]"
    by (rule Tool_card)
  show "elem_type (Tool ps) = VRef ''Card''"
    by (simp add: Tool_card)
  show "map elem_type (children_of (Tool ps)) = [VRef ''Card.Title'', VRef ''Card.Description'']"
    by (simp add: Tool_card children_of_def attr_def get_prop_def)
  show "attr (card_title (Tool ps)) ''children'' = get_prop ps ''title''"
    by (simp add: card_title_Tool attr_def get_prop_def)
  show "attr (card_title (Tool ps)) ''href'' = get_prop ps ''href''"
    by (simp add: card_title_Tool attr_def get_prop_def)
  show "attr (card_title (Tool ps)) ''target'' = VStr ''_blank''"
    by (simp add: card_title_Tool attr_def get_prop_def)
  show "attr (card_title (Tool ps)) ''rel'' = VStr ''noopener noreferrer''"
    by (simp add: card_title_Tool attr_def get_prop_def)
  show d: "attr (card_description (Tool ps)) ''children'' = get_prop ps ''children''"
    by (simp add: card_description_Tool attr_def get_prop_def)
  { assume "map_of ps ''title'' = None"
    then show "attr (card_title (Tool ps)) ''children'' = VUndefined"
      by (simp add: card_title_Tool attr_def get_prop_def) }
  { assume "map_of ps ''href'' = None"
    then show "attr (card_title (Tool ps)) ''href'' = VUndefined"
      by (simp add: card_title_Tool attr_def get_prop_def) }
  { assume "map_of ps ''children'' = None"
    then show "attr (card_description (Tool ps)) ''children'' = VUndefined"
      by (simp add: card_description_Tool attr_def get_prop_def) }
qed

theorem Tool_renders_any_props_witness:
  "map_of ([] :: props) ''title'' = None
   \<and> map_of ([] :: props) ''href'' = None
   \<and> map_of ([] :: props) ''children'' = None
   \<and> Tool []
     = VElem (VRef ''Card'')
         [(''as'', VStr ''li''),
          (''children'', VArr
             [VElem (VRef ''Card.Title'')
                [(''as'', VStr ''h3''), (''href'', VUndefined),
                 (''target'', VStr ''_blank''), (''rel'', VStr ''noopener noreferrer''),
                 (''children'', VUndefined)],
              VElem (VRef ''Card.Description'') [(''children'', VUndefined)]])]
   \<and> attr (card_title (Tool [])) ''children'' = VUndefined
   \<and> attr (card_title (Tool [])) ''href'' = VUndefined
   \<and> attr (card_description (Tool [])) ''children'' = VUndefined
   \<and> map_of [(''href'', VStr ''https://trello.com''), (''children'', VStr trello_text)] ''title''
     = None
   \<and> attr (card_title (Tool [(''href'', VStr ''https://trello.com''),
                               (''children'', VStr trello_text)])) ''children'' = VUndefined
   \<and> attr (card_title (Tool [(''href'', VStr ''https://trello.com''),
                               (''children'', VStr trello_text)])) ''href''
     = VStr ''https://trello.com''
   \<and> attr (card_description (Tool [(''href'', VStr ''https://trello.com''),
                                     (''children'', VStr trello_text)])) ''children''
     = VStr trello_text"
proof -
  let ?qs = "[(''href'', VStr ''https://trello.com''), (''children'', VStr trello_text)]"
  have t: "map_of ([] :: props) ''title'' = None"
    and h: "map_of ([] :: props) ''href'' = None"
    and c: "map_of ([] :: props) ''children'' = None"
    by simp_all
  have g: "get_prop [] ''title'' = VUndefined" "get_prop [] ''href'' = VUndefined"
    "get_prop [] ''children'' = VUndefined"
    by (simp_all add: get_prop_def)
  have a: "map_of ?qs ''title'' = None"
    by simp
  have gq: "get_prop ?qs ''href'' = VStr ''https://trello.com''"
    "get_prop ?qs ''children'' = VStr trello_text"
    by (simp_all add: get_prop_def)
  note e = Tool_renders_any_props [of "[]"]
  note q = Tool_renders_any_props [of ?qs]
  from e have e1: "Tool []
     = VElem (VRef ''Card'')
         [(''as'', VStr ''li''),
          (''children'', VArr
             [VElem (VRef ''Card.Title'')
                [(''as'', VStr ''h3''), (''href'', VUndefined),
                 (''target'', VStr ''_blank''), (''rel'', VStr ''noopener noreferrer''),
                 (''children'', VUndefined)],
              VElem (VRef ''Card.Description'') [(''children'', VUndefined)]])]"
    by (simp only: g simp_thms)
  from e t have e2: "attr (card_title (Tool [])) ''children'' = VUndefined"
    by blast
  from e h have e3: "attr (card_title (Tool [])) ''href'' = VUndefined"
    by blast
  from e c have e4: "attr (card_description (Tool [])) ''children'' = VUndefined"
    by blast
  from q a have q1: "attr (card_title (Tool ?qs)) ''children'' = VUndefined"
    by blast
  from q have "attr (card_title (Tool ?qs)) ''href'' = get_prop ?qs ''href''"
    and "attr (card_description (Tool ?qs)) ''children'' = get_prop ?qs ''children''"
    by blast+
  then have q2: "attr (card_title (Tool ?qs)) ''href'' = VStr ''https://trello.com''"
    and q3: "attr (card_description (Tool ?qs)) ''children'' = VStr trello_text"
    by (simp_all only: gq)
  from t h c e1 e2 e3 e4 a q1 q2 q3 show ?thesis
    by (simp only: simp_thms)
qed

section \<open>Properties of the Uses page\<close>

lemmas page_eval = Uses_def jsx_def jsx_props_def render_def ToolsSection_def Tool_card
  get_prop_def spread_def rest_props_def Let_def pycharm_props_def page_sections_def
  page_cards_def page_groups_def card_title_text_def card_title_def section_cards_def
  children_of_def attr_def

lemma Uses_section_titles:
  "map (\<lambda>s. attr s ''title'') (page_sections Uses)
   = [VStr ''Workstation'', VStr ''Development tools'', VStr ''Design'', VStr ''Productivity'']"
  by (simp add: page_eval)

lemma Uses_card_titles:
  "map card_title_text (page_cards Uses)
   = [VStr macbook_title, VStr ''AirPods Max'', VStr ''PyCharm Professional'', VStr ''DataGrip'',
      VStr ''iTerm2'', VStr ''Figma'', VStr ''MidJourney AI'', VStr ''Trello'', VStr ''ChatGPT'']"
  by (simp add: page_eval)

lemma Uses_groups:
  "page_groups Uses
   = [(VStr ''Workstation'', [VStr macbook_title, VStr ''AirPods Max'']),
      (VStr ''Development tools'', [VStr ''PyCharm Professional'', VStr ''DataGrip'', VStr ''iTerm2'']),
      (VStr ''Design'', [VStr ''Figma'', VStr ''MidJourney AI'']),
      (VStr ''Productivity'', [VStr ''Trello'', VStr ''ChatGPT''])]"
  by (simp add: page_eval)

text \<open>
  The sections of the page are the groups of its entries, each rendered as a titled section
  with one card per entry.
\<close>

lemma Uses_renders_registry:
  "page_sections Uses = map render_group (group_items uses_registry)"
  by (simp add: page_eval group_items_def uses_registry_def render_group_def render_item_def)

text \<open>\<open>ToolsSection\<close> shows the children it is given, in the order given.\<close>

lemma section_cards_ToolsSection:
  "section_cards (ToolsSection ps) = child_list (get_prop ps ''children'')"
proof -
  let ?ul = "VElem (VStr ''ul'')
      [(''role'', VStr ''list''), (''className'', VStr ''space-y-16''),
       (''children'', get_prop ps ''children'')]"
  have "ToolsSection ps
      = VElem (VRef ''Section'') (set_prop ''children'' ?ul (spread [] (rest_props [''children''] ps)))"
    by (simp add: ToolsSection_def jsx_def jsx_props_def Let_def)
  then have "children_of (ToolsSection ps) = [?ul]"
    by (simp add: children_of_def attr_def get_prop_set_prop)
  then show ?thesis
    by (simp add: section_cards_def children_of_def attr_def get_prop_def)
qed

text \<open>
  On the Uses page the entries of a category are adjacent, so grouping its entries and
  concatenating the groups gives the entries back in their order.
\<close>

lemma uses_registry_grouping:
  "distinct (remdups_adj (map category uses_registry))"
  "concat (map items (group_items uses_registry)) = uses_registry"
proof -
  show d: "distinct (remdups_adj (map category uses_registry))"
    by (simp add: uses_registry_def)
  then show "concat (map items (group_items uses_registry)) = uses_registry"
    by (simp only: group_items_concat concat_groups_contiguous)
qed

text \<open>
  Claim C10. The Uses page renders exactly four sections, titled \<open>Workstation\<close>,
  \<open>Development tools\<close>, \<open>Design\<close> and \<open>Productivity\<close> in that order, and exactly the nine
  cards of their entries; the \<open>Books\<close> section inside the JSX comment and its four entries
  are not rendered.
\<close>

theorem Uses_four_sections:
  "map (\<lambda>s. attr s ''title'') (page_sections Uses)
     = [VStr ''Workstation'', VStr ''Development tools'', VStr ''Design'', VStr ''Productivity'']
   \<and> map card_title_text (page_cards Uses)
     = [VStr macbook_title, VStr ''AirPods Max'', VStr ''PyCharm Professional'', VStr ''DataGrip'',
        VStr ''iTerm2'', VStr ''Figma'', VStr ''MidJourney AI'', VStr ''Trello'', VStr ''ChatGPT'']
   \<and> VStr ''Books'' \<notin> set (map (\<lambda>s. attr s ''title'') (page_sections Uses))"
  by (simp add: Uses_section_titles Uses_card_titles)

text \<open>
  Claim C6. On the Uses page every entry has a non-empty title, the cards of every section
  are shown in the order uses.jsx declares its entries, and no two sections share a name.
\<close>

theorem Uses_content_invariants:
  "page_groups Uses
     = [(VStr ''Workstation'', [VStr macbook_title, VStr ''AirPods Max'']),
        (VStr ''Development tools'',
         [VStr ''PyCharm Professional'', VStr ''DataGrip'', VStr ''iTerm2'']),
        (VStr ''Design'', [VStr ''Figma'', VStr ''MidJourney AI'']),
        (VStr ''Productivity'', [VStr ''Trello'', VStr ''ChatGPT''])]
   \<and> list_all nonempty_string (concat (map snd (page_groups Uses)))
   \<and> distinct (map fst (page_groups Uses))
   \<and> section_cards (ToolsSection ps) = child_list (get_prop ps ''children'')"
  by (simp add: Uses_groups section_cards_ToolsSection macbook_title_def)

section \<open>Properties of the article pages\<close>

text \<open>
  The page component hands \<open>meta\<close> and the body on to the layout; a \<open>meta\<close> among the props
  would replace the one of the article.
\<close>

lemma article_page_meta:
  "attr (article_page m [(''children'', b)]) ''meta'' = m"
  "attr (article_page m [(''children'', b)]) ''children'' = b"
  "attr (article_page m [(''meta'', m'), (''children'', b)]) ''meta'' = m'"
  by (simp_all add: article_page_def jsx_def jsx_props_def spread_def attr_def get_prop_def)

lemma render_article_parts:
  "render_article a
   = [AuthorPart (VStr (article_author a)), DatePart (VStr (article_date a)),
      TitlePart (VStr (article_title a)), ContentRegion (article_body a)]"
  by (simp add: render_article_def article_page_def jsx_def jsx_props_def spread_def
      ArticleLayout_def article_meta_def get_prop_def Let_def)

lemma article_metas:
  "article_meta fastapi_no_body = meta_fastapi"
  "titles_of (ArticleLayout (elem_props (article_page meta_fastapi [(''children'', b)])))
   = [VStr ''How to Serve AI Models with FastAPI and Docker'']"
  "titles_of (ArticleLayout (elem_props (article_page meta_streamlit [(''children'', b)])))
   = [VStr ''Create a Simple Stock Screening App Using Streamlit'']"
  "titles_of (ArticleLayout (elem_props (article_page meta_first_ml [(''children'', b)])))
   = [VStr ''Your First Machine Learning Project in Python'']"
  by (simp_all add: article_meta_def fastapi_no_body_def meta_fastapi_def meta_streamlit_def
      meta_first_ml_def article_page_def jsx_def jsx_props_def spread_def ArticleLayout_def
      get_prop_def Let_def titles_of_def)

text \<open>
  Claim C3. For every article the rendered page holds the title of the article once and
  its date once, both unchanged, and its content region holds the body unchanged.
\<close>

theorem article_title_date_once:
  "titles_of (render_article a) = [VStr (article_title a)]
   \<and> dates_of (render_article a) = [VStr (article_date a)]
   \<and> contents_of (render_article a) = [article_body a]"
  by (simp add: render_article_parts titles_of_def dates_of_def contents_of_def)

text \<open>
  Claim C7. For an article whose body is empty the rendered page is the metadata header
  followed by a content region that is empty; rendering is total, so there is no error.
\<close>

theorem empty_body_article_page:
  assumes "empty_content (article_body a)"
  shows "filter is_header_part (render_article a)
       = [AuthorPart (VStr (article_author a)), DatePart (VStr (article_date a)),
          TitlePart (VStr (article_title a))]
     \<and> filter (\<lambda>p. \<not> is_header_part p) (render_article a) = [ContentRegion (article_body a)]
     \<and> list_all empty_content (contents_of (render_article a))"
  using assms by (simp add: render_article_parts contents_of_def)

theorem empty_body_article_page_witness:
  "empty_content (article_body fastapi_no_body)
   \<and> filter is_header_part (render_article fastapi_no_body)
     = [AuthorPart (VStr ''Ibrahim Saidi''), DatePart (VStr ''2022-11-04''),
        TitlePart (VStr ''How to Serve AI Models with FastAPI and Docker'')]
   \<and> filter (\<lambda>p. \<not> is_header_part p) (render_article fastapi_no_body) = [ContentRegion (VStr [])]"
proof -
  have e: "empty_content (article_body fastapi_no_body)"
    by (simp add: empty_content_def fastapi_no_body_def)
  from empty_body_article_page [OF e] e show ?thesis
    by (simp add: fastapi_no_body_def)
qed

end
